theory Spec2Isabelle
  imports Main
begin

section \<open>promplot: plotting Prometheus metrics\<close>

text \<open>
  A shallow embedding of the two Go source files of promplot: the package
  function \<open>Plot\<close> (chart composition and rendering) and the command
  \<open>main\<close> with its helper \<open>fatal\<close>.  Go strings are byte strings and are
  modelled as \<^typ>\<open>string\<close>; a Go \<open>error\<close> is modelled by its text.
\<close>

definition newline :: char where
  "newline = CHR 0x0A"

subsection \<open>The regular expression \<open>labelText\<close>\<close>

text \<open>
  \<open>var labelText = regexp.MustCompile("\\{(.*)\\}")\<close>.
  The pattern uses a literal character, the dot (any character except a line
  feed), the greedy star of a one-character pattern, concatenation and a
  capture group.  Go's \<open>regexp\<close> returns the match a backtracking matcher
  finds first: the leftmost start, the star preferring more repetitions.  The
  matcher below lists, for a start position, every way to match in that order
  of preference, each as the matched text, the captured groups (by opening
  parenthesis) and the rest of the input.
\<close>

datatype atom = Lit char | AnyCharNotNL

datatype regex = Atom atom | Star atom | Cat regex regex | Cap regex

fun atom_matches :: "atom \<Rightarrow> char \<Rightarrow> bool" where
  "atom_matches (Lit a) c = (c = a)"
| "atom_matches AnyCharNotNL c = (c \<noteq> newline)"

fun star_atom :: "atom \<Rightarrow> string \<Rightarrow> (string \<times> string) list" where
  "star_atom a [] = [([], [])]"
| "star_atom a (c # cs) =
     (if atom_matches a c then map (\<lambda>(t, r). (c # t, r)) (star_atom a cs) else [])
     @ [([], c # cs)]"

fun matches :: "regex \<Rightarrow> string \<Rightarrow> (string \<times> string list \<times> string) list" where
  "matches (Atom a) s =
     (case s of [] \<Rightarrow> [] | c # cs \<Rightarrow> if atom_matches a c then [([c], [], cs)] else [])"
| "matches (Star a) s = map (\<lambda>(t, r). (t, [], r)) (star_atom a s)"
| "matches (Cat p q) s =
     concat (map (\<lambda>(t1, g1, r1).
                    map (\<lambda>(t2, g2, r2). (t1 @ t2, g1 @ g2, r2)) (matches q r1))
                 (matches p s))"
| "matches (Cap p) s = map (\<lambda>(t, g, r). (t, t # g, r)) (matches p s)"

text \<open>
  \<open>FindStringSubmatch\<close>: the leftmost match and its groups (element 0 the whole
  match, element 1 the first group), or \<open>None\<close> for Go's \<open>nil\<close>.
\<close>

fun FindStringSubmatch :: "regex \<Rightarrow> string \<Rightarrow> string list option" where
  "FindStringSubmatch re [] =
     (case matches re [] of [] \<Rightarrow> None | (t, g, r) # _ \<Rightarrow> Some (t # g))"
| "FindStringSubmatch re (c # cs) =
     (case matches re (c # cs) of
        [] \<Rightarrow> FindStringSubmatch re cs
      | (t, g, r) # _ \<Rightarrow> Some (t # g))"

definition labelText :: regex where
  "labelText =
     Cat (Atom (Lit (CHR ''{''))) (Cat (Cap (Star AnyCharNotNL)) (Atom (Lit (CHR ''}''))))"

text \<open>
  The extraction the specification describes, for comparison: the text between
  the first opening brace and the first closing brace after it.
\<close>

fun upto_first_close :: "string \<Rightarrow> string option" where
  "upto_first_close [] = None"
| "upto_first_close (c # cs) =
     (if c = CHR ''}'' then Some [] else map_option ((#) c) (upto_first_close cs))"

fun spec_first_brace_pair :: "string \<Rightarrow> string option" where
  "spec_first_brace_pair [] = None"
| "spec_first_brace_pair (c # cs) =
     (if c = CHR ''{'' then upto_first_close cs else spec_first_brace_pair cs)"

subsection \<open>Data of package promplot\<close>

text \<open>
  A call returns a value (\<open>Ok\<close>, the error being \<open>nil\<close>), returns \<open>nil\<close> with
  an error (\<open>Err\<close>), or panics.
\<close>

datatype 'a result = Ok 'a | Err string | Panic string

text \<open>
  \<open>model.Matrix\<close> is a slice of sample streams, each a metric and a slice of
  sample pairs.  \<open>model.Time\<close> is an \<open>int64\<close>; \<open>model.SampleValue\<close> is a
  \<open>float64\<close>, the type \<open>'f\<close> here.
\<close>

record 'f SamplePair =
  Timestamp :: int
  Value :: 'f

record ('m, 'f) SampleStream =
  Metric :: 'm
  Values :: "'f SamplePair list"

type_synonym ('m, 'f) Matrix = "('m, 'f) SampleStream list"

text \<open>A \<open>vg.Length\<close>, kept as a multiple of the unit the source names.\<close>

datatype vg_Length = Centimeter int | Millimeter int | Points int

record Font =
  font_name :: string
  font_size :: vg_Length

record ('f, 'c) Line =
  XYs :: "('f \<times> 'f) list"
  LineStyle_Width :: vg_Length
  LineStyle_Color :: 'c

text \<open>
  The fields of \<open>plot.Plot\<close> the source assigns, the plotters added by
  \<open>p.Add\<close> and the entries added by \<open>p.Legend.Add\<close>.
\<close>

record ('f, 'c) Chart =
  Title_Text :: string
  Title_Font :: Font
  Title_Padding :: vg_Length
  X_Tick_Marker :: string
  X_Tick_Label_Font :: Font
  Y_Tick_Label_Font :: Font
  Legend_Font :: Font
  Legend_Top :: bool
  Legend_YOffs :: vg_Length
  plotters :: "('f, 'c) Line list"
  Legend_entries :: "(string \<times> ('f, 'c) Line) list"

text \<open>
  The functions of other packages that \<open>Plot\<close> calls are parameters.  A
  function that returns only an error gives \<open>None\<close> for \<open>nil\<close>.
\<close>

record ('m, 'f, 'c, 'cv) Libs =
  plot_New :: "string option"
  vg_MakeFont :: "string \<Rightarrow> vg_Length \<Rightarrow> string option"
  brewer_GetPalette :: "string \<Rightarrow> nat \<Rightarrow> string + 'c list"
  Time_Unix :: "int \<Rightarrow> int"
  float64 :: "int \<Rightarrow> 'f"
  SampleValue_String :: "'f \<Rightarrow> string"
  strconv_ParseFloat :: "string \<Rightarrow> 'f option"
  plotter_NewLine :: "('f \<times> 'f) list \<Rightarrow> string option"
  Metric_String :: "'m \<Rightarrow> string"
  draw_NewFormattedCanvas :: "vg_Length \<Rightarrow> vg_Length \<Rightarrow> string \<Rightarrow> string + 'cv"
  Plot_Draw :: "('f, 'c) Chart \<Rightarrow> vg_Length \<times> vg_Length \<times> vg_Length \<times> vg_Length \<Rightarrow> 'cv \<Rightarrow> 'cv"
  Canvas_WriteTo :: "'cv \<Rightarrow> string + string"

subsection \<open>Plot\<close>

definition paletteSize :: nat where
  "paletteSize = 8"

text \<open>The inner loop of \<open>Plot\<close>: the points of one sample stream.\<close>

fun sample_points ::
  "('m, 'f, 'c, 'cv) Libs \<Rightarrow> 'f SamplePair list \<Rightarrow> string + ('f \<times> 'f) list" where
  "sample_points L [] = Inr []"
| "sample_points L (v # vs) =
     (case strconv_ParseFloat L (SampleValue_String L (Value v)) of
        None \<Rightarrow> Inl (''sample value not float: '' @ SampleValue_String L (Value v))
      | Some f \<Rightarrow>
          (case sample_points L vs of
             Inl e \<Rightarrow> Inl e
           | Inr data \<Rightarrow> Inr ((float64 L (Time_Unix L (Timestamp v)), f) # data)))"

text \<open>
  The outer loop of \<open>Plot\<close>, from series index \<open>s\<close> on; \<open>n\<close> is
  \<open>len(metrics)\<close>.  Indexing \<open>colors\<close> out of range panics.
\<close>

fun add_series ::
  "('m, 'f, 'c, 'cv) Libs \<Rightarrow> 'c list \<Rightarrow> nat \<Rightarrow> nat \<Rightarrow> ('m, 'f) Matrix \<Rightarrow>
   ('f, 'c) Chart \<Rightarrow> ('f, 'c) Chart result" where
  "add_series L colors n s [] p = Ok p"
| "add_series L colors n s (sample # rest) p =
     (case sample_points L (Values sample) of
        Inl e \<Rightarrow> Err e
      | Inr data \<Rightarrow>
          (case plotter_NewLine L data of
             Some e \<Rightarrow> Err (''failed creating line: '' @ e)
           | None \<Rightarrow>
               if s mod paletteSize < length colors then
                 let l = \<lparr>XYs = data, LineStyle_Width = Points 1,
                          LineStyle_Color = colors ! (s mod paletteSize)\<rparr>;
                     p1 = p\<lparr>plotters := plotters p @ [l]\<rparr>;
                     p2 = (if n > 1 then
                             (case FindStringSubmatch labelText (Metric_String L (Metric sample)) of
                                None \<Rightarrow> p1
                              | Some m \<Rightarrow> p1\<lparr>Legend_entries := Legend_entries p1 @ [(m ! 1, l)]\<rparr>)
                           else p1)
                 in add_series L colors n (Suc s) rest p2
               else Panic ''runtime error: index out of range''))"

text \<open>\<open>Plot\<close> up to the end of its loop: the chart that is then drawn.\<close>

definition Plot_compose ::
  "('m, 'f, 'c, 'cv) Libs \<Rightarrow> ('m, 'f) Matrix \<Rightarrow> string \<Rightarrow> ('f, 'c) Chart result" where
  "Plot_compose L metrics title =
     (case plot_New L of
        Some e \<Rightarrow> Err (''failed creating new plot: '' @ e)
      | None \<Rightarrow>
     (case vg_MakeFont L ''Helvetica-Bold'' (Centimeter 1) of
        Some e \<Rightarrow> Err (''failed creating font: '' @ e)
      | None \<Rightarrow>
     (case vg_MakeFont L ''Helvetica'' (Millimeter 3) of
        Some e \<Rightarrow> Err (''failed creating font: '' @ e)
      | None \<Rightarrow>
     (let titleFont = \<lparr>font_name = ''Helvetica-Bold'', font_size = Centimeter 1\<rparr>;
          textFont = \<lparr>font_name = ''Helvetica'', font_size = Millimeter 3\<rparr>;
          p = \<lparr>Title_Text = title, Title_Font = titleFont, Title_Padding = Centimeter 2,
               X_Tick_Marker = ''2006-01-02'' @ [newline] @ ''15:04'',
               X_Tick_Label_Font = textFont, Y_Tick_Label_Font = textFont,
               Legend_Font = textFont, Legend_Top = True, Legend_YOffs = Millimeter 15,
               plotters = [], Legend_entries = []\<rparr>
      in case brewer_GetPalette L ''Dark2'' paletteSize of
           Inl e \<Rightarrow> Err (''cannot get color palette: '' @ e)
         | Inr colors \<Rightarrow> add_series L colors (length metrics) 0 metrics p))))"

definition Plot ::
  "('m, 'f, 'c, 'cv) Libs \<Rightarrow> ('m, 'f) Matrix \<Rightarrow> string \<Rightarrow> string \<Rightarrow> string result" where
  "Plot L metrics title format =
     (case Plot_compose L metrics title of
        Err e \<Rightarrow> Err e
      | Panic m \<Rightarrow> Panic m
      | Ok p \<Rightarrow>
          (case draw_NewFormattedCanvas L (Centimeter 24) (Centimeter 20) format of
             Inl e \<Rightarrow> Err (''failed creating image canvas: '' @ e)
           | Inr c \<Rightarrow>
               (case Canvas_WriteTo L
                       (Plot_Draw L p (Millimeter 6, Millimeter (- 6), Millimeter 6, Millimeter (- 6)) c) of
                  Inl e \<Rightarrow> Err (''failed saving plot: '' @ e)
                | Inr b \<Rightarrow> Ok b)))"

subsection \<open>The command: flags, process state and collaborators\<close>

text \<open>The values of the command-line flags after \<open>flag.Parse\<close>.\<close>

record Flags =
  flag_silent :: bool
  flag_version :: bool
  flag_url :: string
  flag_query :: string
  flag_time :: int
  flag_range :: int
  flag_title :: string
  flag_format :: string
  flag_file :: string
  flag_slack :: string
  flag_channel :: string

text \<open>
  What the process has done: the bytes written to standard output and to the
  error stream, the data copied to files, and the exit status once the process
  has ended (\<open>None\<close> while it runs).
\<close>

record Process =
  stdout :: string
  stderr :: string
  files :: "(string \<times> string) list"
  exit_status :: "nat option"

text \<open>
  The build and the collaborators of \<open>main\<close>.  \<open>io_Copy\<close> gives the bytes
  that reached the destination and the error; \<open>fmt_q\<close> is the verb \<open>%q\<close>;
  \<open>runtime_trace\<close> is what the runtime prints after the message of a panic.
\<close>

record ('m, 'f) OS =
  version :: string
  runtime_GOOS :: string
  runtime_GOARCH :: string
  os_Args0 :: string
  flag_PrintDefaults :: string
  fmt_q :: "string \<Rightarrow> string"
  runtime_trace :: string
  promplot_Metrics :: "string \<Rightarrow> string \<Rightarrow> int \<Rightarrow> int \<Rightarrow> nat \<Rightarrow> string + ('m, 'f) Matrix"
  os_Create :: "string \<Rightarrow> string option"
  io_Copy :: "string \<Rightarrow> string \<Rightarrow> string \<times> string option"
  promplot_Slack :: "string \<Rightarrow> string \<Rightarrow> string \<Rightarrow> string \<Rightarrow> string option"

definition usage :: "string \<Rightarrow> string" where
  "usage arg0 =
     [newline] @ ''Usage: '' @ arg0 @ '' [flags...]'' @ [newline, newline]
     @ ''Create and deliver plots from your Prometheus metrics.'' @ [newline, newline]
     @ ''Save plot to file or send it right to a slack channel.'' @ [newline]
     @ ''At least one of -slack or -file must be set.'' @ [newline, newline, newline]
     @ ''Flags:'' @ [newline]"

definition more_text :: string where
  "more_text = [newline] @ ''For more visit: https://qvl.io/promplot''"

definition step :: nat where
  "step = 100"

definition flag_Usage :: "('m, 'f) OS \<Rightarrow> Process \<Rightarrow> Process" where
  "flag_Usage E p =
     p\<lparr>stderr := stderr p @ usage (os_Args0 E) @ flag_PrintDefaults E @ more_text @ [newline]\<rparr>"

text \<open>The logging helper of \<open>main\<close>; \<open>msg\<close> is the formatted text.\<close>

definition log :: "Flags \<Rightarrow> string \<Rightarrow> Process \<Rightarrow> Process" where
  "log F msg p = (if \<not> flag_silent F then p\<lparr>stderr := stderr p @ msg @ [newline]\<rparr> else p)"

definition fatal :: "string option \<Rightarrow> string \<Rightarrow> Process \<Rightarrow> Process" where
  "fatal err msg p =
     (case err of
        Some e \<Rightarrow> p\<lparr>stderr := stderr p @ ''msg: '' @ e @ [newline], exit_status := Some 1\<rparr>
      | None \<Rightarrow> p)"

text \<open>A panic that nothing recovers ends the process with status 2.\<close>

definition runtime_panic :: "('m, 'f) OS \<Rightarrow> string \<Rightarrow> Process \<Rightarrow> Process" where
  "runtime_panic E m p =
     p\<lparr>stderr := stderr p @ ''panic: '' @ m @ runtime_trace E, exit_status := Some 2\<rparr>"

text \<open>
  The block \<open>if *file != ""\<close> of \<open>main\<close>.  The tee reader hands every byte
  of the plot to the buffer while \<open>io.Copy\<close> reads it to the end, so after a
  copy without error the buffer holds the plot again.
\<close>

definition copy_plot :: "('m, 'f) OS \<Rightarrow> Flags \<Rightarrow> string \<Rightarrow> Process \<Rightarrow> Process" where
  "copy_plot E F plot p =
     (let (written, err) = io_Copy E (flag_file F) plot;
          p1 = (if flag_file F = ''-'' then p\<lparr>stdout := stdout p @ written\<rparr>
                else p\<lparr>files := files p @ [(flag_file F, written)]\<rparr>)
      in fatal err ''failed copying file'' p1)"

definition write_file :: "('m, 'f) OS \<Rightarrow> Flags \<Rightarrow> string \<Rightarrow> Process \<Rightarrow> Process" where
  "write_file E F plot p =
     (if flag_file F \<noteq> [] then
        (if flag_file F = ''-'' then copy_plot E F plot (log F ''Writing to stdout'' p)
         else
           let p1 = log F (''Writing to '' @ [CHR 0x27] @ flag_file F @ [CHR 0x27]) p;
               p2 = fatal (os_Create E (flag_file F)) ''failed creating file'' p1
           in if exit_status p2 \<noteq> None then p2 else copy_plot E F plot p2)
      else p)"

text \<open>The block \<open>if *slackToken != ""\<close> of \<open>main\<close>.\<close>

definition upload_slack :: "('m, 'f) OS \<Rightarrow> Flags \<Rightarrow> string \<Rightarrow> Process \<Rightarrow> Process" where
  "upload_slack E F plot p =
     (if flag_slack F \<noteq> [] then
        fatal (promplot_Slack E (flag_slack F) (flag_channel F) (flag_title F) plot)
          ''failed creating plot''
          (log F (''Uploading to Slack channel '' @ fmt_q E (flag_channel F)) p)
      else p)"

definition main ::
  "('m, 'f, 'c, 'cv) Libs \<Rightarrow> ('m, 'f) OS \<Rightarrow> Flags \<Rightarrow> Process" where
  "main L E F =
     (let p0 = \<lparr>stdout = [], stderr = [], files = [], exit_status = None\<rparr> in
      if flag_version F then
        p0\<lparr>stdout := ''promplot '' @ version E @ '' '' @ runtime_GOOS E @ '' ''
                       @ runtime_GOARCH E @ [newline],
           exit_status := Some 0\<rparr>
      else if flag_url F = [] \<or> flag_query F = [] \<or> flag_range F = 0
              \<or> (flag_file F = [] \<and> (flag_slack F = [] \<or> flag_channel F = [])) then
        (flag_Usage E p0)\<lparr>exit_status := Some 1\<rparr>
      else
        let p1 = log F (''Querying Prometheus '' @ fmt_q E (flag_query F)) p0 in
        (case promplot_Metrics E (flag_url F) (flag_query F) (flag_time F) (flag_range F) step of
           Inl e \<Rightarrow> fatal (Some e) ''failed getting metrics'' p1
         | Inr metrics \<Rightarrow>
             let p2 = log F (''Creating plot '' @ fmt_q E (flag_title F))
                        (fatal None ''failed getting metrics'' p1) in
             (case Plot L metrics (flag_title F) (flag_format F) of
                Panic m \<Rightarrow> runtime_panic E m p2
              | Err e \<Rightarrow> fatal (Some e) ''failed creating plot'' p2
              | Ok plot \<Rightarrow>
                  let p3 = write_file E F plot (fatal None ''failed creating plot'' p2) in
                  if exit_status p3 \<noteq> None then p3
                  else
                    let p4 = upload_slack E F plot p3 in
                    if exit_status p4 \<noteq> None then p4
                    else (log F ''Done'' p4)\<lparr>exit_status := Some 0\<rparr>)))"

subsection \<open>An example environment\<close>

text \<open>
  Concrete libraries and inputs on which the definitions can be evaluated.
  The floats of the example are the doubles with an integer value, NaN and the
  two infinities.  \<open>format_float\<close> prints them as \<open>FormatFloat\<close> does with
  format \<open>f\<close> and the shortest precision, and \<open>parse_float\<close> reads what
  \<open>format_float\<close> prints, so the string of every value parses, as it does
  for \<open>model.SampleValue\<close>.  \<open>int_to_float\<close> converts an \<open>int64\<close>, rounding
  to 53 bits, ties to even.  \<open>quote\<close> is the verb \<open>%q\<close> on text whose only
  control characters are line feed, tab and carriage return.
\<close>

datatype example_float = Num int | NaN | PosInf | NegInf

function decimal :: "int \<Rightarrow> string" where
  "decimal n = (if n < 10 then [''0123456789'' ! nat n]
                else decimal (n div 10) @ [''0123456789'' ! nat (n mod 10)])"
  by pat_completeness auto
termination
  by (relation "measure nat") auto

declare decimal.simps [simp del]

definition format_float :: "example_float \<Rightarrow> string" where
  "format_float v =
     (case v of
        Num i \<Rightarrow> if i < 0 then CHR ''-'' # decimal (- i) else decimal i
      | NaN \<Rightarrow> ''NaN'' | PosInf \<Rightarrow> ''+Inf'' | NegInf \<Rightarrow> ''-Inf'')"

definition digit_value :: "char \<Rightarrow> int option" where
  "digit_value c = map_of (zip ''0123456789'' [0, 1, 2, 3, 4, 5, 6, 7, 8, 9]) c"

fun read_decimal :: "string \<Rightarrow> int \<Rightarrow> int option" where
  "read_decimal [] acc = Some acc"
| "read_decimal (c # cs) acc =
     (case digit_value c of None \<Rightarrow> None | Some d \<Rightarrow> read_decimal cs (10 * acc + d))"

definition parse_float :: "string \<Rightarrow> example_float option" where
  "parse_float s =
     (if s = ''NaN'' then Some NaN
      else if s = ''+Inf'' then Some PosInf
      else if s = ''-Inf'' then Some NegInf
      else case s of
             [] \<Rightarrow> None
           | c # cs \<Rightarrow>
               if c = CHR ''-''
               then (if cs = [] then None
                     else map_option (\<lambda>n. Num (- n)) (read_decimal cs 0))
               else map_option Num (read_decimal s 0))"

function bit_length :: "int \<Rightarrow> nat" where
  "bit_length n = (if n \<le> 0 then 0 else Suc (bit_length (n div 2)))"
  by pat_completeness auto
termination
  by (relation "measure nat") auto

declare bit_length.simps [simp del]

definition nearest_double :: "int \<Rightarrow> int" where
  "nearest_double n =
     (if n < 2 ^ 53 then n
      else let e = bit_length n - 53; q = n div 2 ^ e; r = n mod 2 ^ e; h = 2 ^ (e - 1)
           in (if r > h \<or> (r = h \<and> odd q) then q + 1 else q) * 2 ^ e)"

definition int_to_float :: "int \<Rightarrow> example_float" where
  "int_to_float i = Num (if i < 0 then - nearest_double (- i) else nearest_double i)"

definition quote :: "string \<Rightarrow> string" where
  "quote s =
     [CHR 0x22]
     @ concat (map (\<lambda>c. if c = CHR 0x22 \<or> c = CHR 0x5C then [CHR 0x5C, c]
                          else if c = CHR 0x0A then [CHR 0x5C, CHR ''n'']
                          else if c = CHR 0x09 then [CHR 0x5C, CHR ''t'']
                          else if c = CHR 0x0D then [CHR 0x5C, CHR ''r'']
                          else [c]) s)
     @ [CHR 0x22]"

text \<open>
  \<open>Time.Unix\<close> divides the milliseconds by 1000, truncating.  \<open>plotter.NewLine\<close>
  rejects NaN and infinite coordinates.  Metrics are given by their string
  form, colours by their position in the palette, and the canvas holds the
  bytes drawn so far.
\<close>

definition example_Libs :: "(string, example_float, nat, string) Libs" where
  "example_Libs =
     \<lparr>plot_New = None,
      vg_MakeFont = (\<lambda>name size. None),
      brewer_GetPalette = (\<lambda>name n. if name = ''Dark2'' \<and> n = 8
                                          then Inr [0, 1, 2, 3, 4, 5, 6, 7]
                                          else Inl ''palette not found''),
      Time_Unix = (\<lambda>t. if t < 0 then - ((- t) div 1000) else t div 1000),
      float64 = int_to_float,
      SampleValue_String = format_float,
      strconv_ParseFloat = parse_float,
      plotter_NewLine = (\<lambda>data. if NaN \<in> fst ` set data \<union> snd ` set data
                                    then Some ''NaN data point''
                                  else if PosInf \<in> fst ` set data \<union> snd ` set data
                                          \<or> NegInf \<in> fst ` set data \<union> snd ` set data
                                    then Some ''infinite data point''
                                  else None),
      Metric_String = (\<lambda>m. m),
      draw_NewFormattedCanvas = (\<lambda>w h format. if format \<in> set [''eps'', ''jpg'', ''jpeg'', ''pdf'',
                                                                     ''png'', ''svg'', ''tif'', ''tiff'']
                                                   then Inr []
                                                   else Inl (''unsupported format: '' @ quote format)),
      Plot_Draw = (\<lambda>p crop c. c @ Title_Text p),
      Canvas_WriteTo = (\<lambda>c. Inr c)\<rparr>"

definition series_a1 :: "(string, example_float) SampleStream" where
  "series_a1 = \<lparr>Metric = ''up{a=\"1\"}'',
                 Values = [\<lparr>Timestamp = 0, Value = Num 1\<rparr>,
                           \<lparr>Timestamp = 60000, Value = Num 2\<rparr>]\<rparr>"

definition series_a2 :: "(string, example_float) SampleStream" where
  "series_a2 = \<lparr>Metric = ''up{a=\"2\"}'',
                 Values = [\<lparr>Timestamp = 0, Value = Num 0\<rparr>,
                           \<lparr>Timestamp = 60000, Value = Num 1\<rparr>]\<rparr>"

definition series_nan :: "(string, example_float) SampleStream" where
  "series_nan = \<lparr>Metric = ''up{a=\"3\"}'', Values = [\<lparr>Timestamp = 0, Value = NaN\<rparr>]\<rparr>"

definition nine_series :: "(string, example_float) Matrix" where
  "nine_series = [series_a1, series_a2, series_a1, series_a2, series_a1, series_a2,
                  series_a1, series_a2, series_a1]"

definition example_OS :: "(string, example_float) OS" where
  "example_OS =
     \<lparr>version = ''1.0'',
      runtime_GOOS = ''linux'',
      runtime_GOARCH = ''amd64'',
      os_Args0 = ''promplot'',
      flag_PrintDefaults = ''  -url string'',
      fmt_q = quote,
      runtime_trace = [],
      promplot_Metrics = (\<lambda>url q t d n. if url = ''http://down'' then Inl ''connection refused''
                                             else Inr [series_a1, series_a2]),
      os_Create = (\<lambda>path. if path = ''/nodir/out.png'' then Some ''no such file or directory''
                               else None),
      io_Copy = (\<lambda>dest data. if dest = ''/full/out.png'' then ([], Some ''no space left on device'')
                                  else (data, None)),
      promplot_Slack = (\<lambda>token chan t data. if token = ''bad'' then Some ''invalid_auth'' else None)\<rparr>"

definition example_Flags :: Flags where
  "example_Flags =
     \<lparr>flag_silent = True, flag_version = False, flag_url = ''http://prom'', flag_query = ''up'',
      flag_time = 0, flag_range = 3600, flag_title = ''Test'', flag_format = ''png'',
      flag_file = ''out.png'', flag_slack = [], flag_channel = []\<rparr>"

section \<open>Properties\<close>

subsection \<open>What \<open>labelText\<close> matches\<close>

text \<open>
  After the opening brace the rest of the pattern is \<open>(.*)\}\<close>.  Its matches
  are the ways to stop the star in front of a closing brace, longest first.
\<close>

lemma matches_tail:
  "matches (Cat (Cap (Star AnyCharNotNL)) (Atom (Lit (CHR ''}'')))) s =
     concat (map (\<lambda>(t, r). case r of [] \<Rightarrow> []
                    | d # ds \<Rightarrow> if d = CHR ''}'' then [(t @ ''}'', [t], ds)] else [])
                 (star_atom AnyCharNotNL s))"
  apply (simp add: comp_def)
  apply (rule arg_cong [where f = concat])
  apply (rule map_cong [OF refl])
  apply (auto split: list.splits)
  done

lemma close_after_shift:
  "concat (map (\<lambda>(t, r). case r of [] \<Rightarrow> []
                    | d # ds \<Rightarrow> if d = CHR ''}'' then [(t @ ''}'', [t], ds)] else [])
               (map (\<lambda>(t, r). (c # t, r)) xs))
   = map (\<lambda>(t, g, r). (c # t, map ((#) c) g, r))
       (concat (map (\<lambda>(t, r). case r of [] \<Rightarrow> []
                    | d # ds \<Rightarrow> if d = CHR ''}'' then [(t @ ''}'', [t], ds)] else []) xs))"
  by (induction xs) (auto split: list.splits)

lemma matches_tail_Cons:
  "matches (Cat (Cap (Star AnyCharNotNL)) (Atom (Lit (CHR ''}'')))) (c # cs) =
     (if c \<noteq> newline
      then map (\<lambda>(t, g, r). (c # t, map ((#) c) g, r))
             (matches (Cat (Cap (Star AnyCharNotNL)) (Atom (Lit (CHR ''}'')))) cs)
      else [])
     @ (if c = CHR ''}'' then [(''}'', [[]], cs)] else [])"
  unfolding matches_tail
  by (simp del: map_map add: close_after_shift newline_def)

lemma matches_labelText:
  "matches labelText s =
     (case s of [] \<Rightarrow> []
      | c # cs \<Rightarrow> if c = CHR ''{''
          then map (\<lambda>(t, g, r). (CHR ''{'' # t, g, r))
                 (matches (Cat (Cap (Star AnyCharNotNL)) (Atom (Lit (CHR ''}'')))) cs)
          else [])"
  unfolding labelText_def by (cases s) (simp_all add: case_prod_beta)

declare matches.simps [simp del]

lemma matches_tail_no_close:
  "CHR ''}'' \<notin> set s \<Longrightarrow>
   matches (Cat (Cap (Star AnyCharNotNL)) (Atom (Lit (CHR ''}'')))) s = []"
proof (induction s)
  case Nil
  show ?case by (simp add: matches_tail)
next
  case (Cons c cs)
  then show ?case by (auto simp add: matches_tail_Cons newline_def)
qed

lemma matches_tail_greedy:
  "newline \<notin> set g \<Longrightarrow> CHR ''}'' \<notin> set post \<Longrightarrow>
   \<exists>rest. matches (Cat (Cap (Star AnyCharNotNL)) (Atom (Lit (CHR ''}'')))) (g @ CHR ''}'' # post)
     = (g @ ''}'', [g], post) # rest"
proof (induction g)
  case Nil
  then show ?case by (simp add: matches_tail_Cons matches_tail_no_close)
next
  case (Cons c g)
  then obtain rest where
    "matches (Cat (Cap (Star AnyCharNotNL)) (Atom (Lit (CHR ''}'')))) (g @ CHR ''}'' # post)
     = (g @ ''}'', [g], post) # rest" by auto
  with Cons.prems show ?case by (auto simp add: matches_tail_Cons newline_def)
qed

lemma Find_skip:
  "CHR ''{'' \<notin> set pre \<Longrightarrow>
   FindStringSubmatch labelText (pre @ s) = FindStringSubmatch labelText s"
  by (induction pre) (auto simp add: matches_labelText)

lemma Find_no_open: "CHR ''{'' \<notin> set s \<Longrightarrow> FindStringSubmatch labelText s = None"
  by (induction s) (auto simp add: matches_labelText)

lemma Find_no_close: "CHR ''}'' \<notin> set s \<Longrightarrow> FindStringSubmatch labelText s = None"
  by (induction s) (auto simp add: matches_labelText matches_tail_no_close)

lemma Find_greedy:
  assumes "CHR ''{'' \<notin> set pre" "newline \<notin> set g" "CHR ''}'' \<notin> set post"
  shows "FindStringSubmatch labelText (pre @ CHR ''{'' # g @ CHR ''}'' # post)
         = Some [CHR ''{'' # g @ ''}'', g]"
proof -
  from matches_tail_greedy [OF assms(2,3)] obtain rest where
    "matches (Cat (Cap (Star AnyCharNotNL)) (Atom (Lit (CHR ''}'')))) (g @ CHR ''}'' # post)
     = (g @ ''}'', [g], post) # rest" by auto
  then have "FindStringSubmatch labelText (CHR ''{'' # g @ CHR ''}'' # post)
             = Some [CHR ''{'' # g @ ''}'', g]"
    by (simp add: matches_labelText)
  then show ?thesis using Find_skip [OF assms(1)] by simp
qed

subsection \<open>The loops of \<open>Plot\<close>\<close>

lemma sample_points_Inr:
  "sample_points L vs = Inr data \<Longrightarrow>
   data = map (\<lambda>v. (float64 L (Time_Unix L (Timestamp v)),
                      the (strconv_ParseFloat L (SampleValue_String L (Value v))))) vs
   \<and> (\<forall>v\<in>set vs. strconv_ParseFloat L (SampleValue_String L (Value v)) \<noteq> None)"
  by (induction vs arbitrary: data) (auto split: option.splits sum.splits)

lemma sample_points_total:
  "\<forall>v\<in>set vs. strconv_ParseFloat L (SampleValue_String L (Value v)) \<noteq> None \<Longrightarrow>
   \<exists>data. sample_points L vs = Inr data"
  by (induction vs) (auto split: option.splits sum.splits)

text \<open>
  When the string of every value parses, as the strings of
  \<open>model.SampleValue\<close> do, the inner loop never returns its error.
\<close>

lemma sample_points_parses:
  "\<forall>v. strconv_ParseFloat L (SampleValue_String L v) \<noteq> None \<Longrightarrow>
   \<exists>data. sample_points L vs = Inr data"
  by (rule sample_points_total) simp

lemma sample_points_Metric_String [simp]:
  "sample_points (L\<lparr>Metric_String := g\<rparr>) vs = sample_points L vs"
  by (induction vs) (auto split: option.splits sum.splits)

lemma add_series_Ok:
  "add_series L colors n s ms p = Ok p' \<Longrightarrow>
   \<exists>ls. plotters p' = plotters p @ ls \<and> length ls = length ms
     \<and> (\<forall>i<length ms.
           sample_points L (Values (ms ! i)) = Inr (XYs (ls ! i))
           \<and> plotter_NewLine L (XYs (ls ! i)) = None
           \<and> (s + i) mod paletteSize < length colors
           \<and> LineStyle_Color (ls ! i) = colors ! ((s + i) mod paletteSize)
           \<and> LineStyle_Width (ls ! i) = Points 1)
     \<and> Legend_entries p' = Legend_entries p @
           (if n > 1 then
              concat (map (\<lambda>(sample, l).
                        case FindStringSubmatch labelText (Metric_String L (Metric sample)) of
                          None \<Rightarrow> [] | Some m \<Rightarrow> [(m ! 1, l)]) (zip ms ls))
            else [])"
proof (induction ms arbitrary: s p)
  case Nil
  then show ?case by simp
next
  case (Cons sample rest)
  from Cons.prems obtain data where
    d: "sample_points L (Values sample) = Inr data" and
    nl: "plotter_NewLine L data = None" and
    c: "s mod paletteSize < length colors"
    by (auto split: sum.splits option.splits if_splits)
  define l where "l = \<lparr>XYs = data, LineStyle_Width = Points 1,
                          LineStyle_Color = colors ! (s mod paletteSize)\<rparr>"
  define p1 where "p1 = p\<lparr>plotters := plotters p @ [l]\<rparr>"
  define p2 where "p2 = (if n > 1 then
                             (case FindStringSubmatch labelText (Metric_String L (Metric sample)) of
                                None \<Rightarrow> p1
                              | Some m \<Rightarrow> p1\<lparr>Legend_entries := Legend_entries p1 @ [(m ! 1, l)]\<rparr>)
                           else p1)"
  have pl2: "plotters p2 = plotters p @ [l]"
    unfolding p2_def p1_def by (simp split: option.splits)
  have lg2: "Legend_entries p2 = Legend_entries p @
      (if n > 1 then (case FindStringSubmatch labelText (Metric_String L (Metric sample)) of
                          None \<Rightarrow> [] | Some m \<Rightarrow> [(m ! 1, l)]) else [])"
    unfolding p2_def p1_def by (simp split: option.splits)
  have rec: "add_series L colors n (Suc s) rest p2 = Ok p'"
    using Cons.prems d nl c unfolding p2_def p1_def l_def by (simp add: Let_def)
  from Cons.IH[OF rec] obtain ls where
    a: "plotters p' = plotters p2 @ ls" and b: "length ls = length rest" and
    e: "\<forall>i<length rest.
           sample_points L (Values (rest ! i)) = Inr (XYs (ls ! i))
           \<and> plotter_NewLine L (XYs (ls ! i)) = None
           \<and> (Suc s + i) mod paletteSize < length colors
           \<and> LineStyle_Color (ls ! i) = colors ! ((Suc s + i) mod paletteSize)
           \<and> LineStyle_Width (ls ! i) = Points 1" and
    f: "Legend_entries p' = Legend_entries p2 @
           (if n > 1 then
              concat (map (\<lambda>(sample, l).
                        case FindStringSubmatch labelText (Metric_String L (Metric sample)) of
                          None \<Rightarrow> [] | Some m \<Rightarrow> [(m ! 1, l)]) (zip rest ls))
            else [])"
    by blast
  have each: "sample_points L (Values ((sample # rest) ! i)) = Inr (XYs ((l # ls) ! i))
           \<and> plotter_NewLine L (XYs ((l # ls) ! i)) = None
           \<and> (s + i) mod paletteSize < length colors
           \<and> LineStyle_Color ((l # ls) ! i) = colors ! ((s + i) mod paletteSize)
           \<and> LineStyle_Width ((l # ls) ! i) = Points 1"
    if "i < length (sample # rest)" for i
  proof (cases i)
    case 0
    then show ?thesis using d nl c by (simp add: l_def)
  next
    case (Suc j)
    with that have "j < length rest" by simp
    with e show ?thesis using Suc by simp
  qed
  have "plotters p' = plotters p @ (l # ls)" using a pl2 by simp
  moreover have "length (l # ls) = length (sample # rest)" using b by simp
  moreover have "Legend_entries p' = Legend_entries p @
           (if n > 1 then
              concat (map (\<lambda>(sample, l).
                        case FindStringSubmatch labelText (Metric_String L (Metric sample)) of
                          None \<Rightarrow> [] | Some m \<Rightarrow> [(m ! 1, l)]) (zip (sample # rest) (l # ls)))
            else [])"
    using f lg2 by simp
  ultimately show ?case using each by blast
qed

lemma add_series_total:
  "\<forall>sample\<in>set ms. \<exists>data. sample_points L (Values sample) = Inr data \<and> plotter_NewLine L data = None \<Longrightarrow>
   paletteSize \<le> length colors \<Longrightarrow>
   \<exists>p'. add_series L colors n s ms p = Ok p'"
proof (induction ms arbitrary: s p)
  case Nil
  then show ?case by simp
next
  case (Cons sample rest)
  from Cons.prems(1) obtain data where
    d: "sample_points L (Values sample) = Inr data" "plotter_NewLine L data = None" by auto
  have c: "s mod paletteSize < length colors"
    using Cons.prems(2) by (simp add: paletteSize_def less_le_trans)
  have "\<forall>sample\<in>set rest. \<exists>data. sample_points L (Values sample) = Inr data \<and> plotter_NewLine L data = None"
    using Cons.prems(1) by simp
  from Cons.IH[OF this Cons.prems(2)] show ?case
    using d c by (simp add: Let_def)
qed

lemma add_series_Metric_String:
  "n \<le> 1 \<Longrightarrow> add_series (L\<lparr>Metric_String := g\<rparr>) colors n s ms p = add_series L colors n s ms p"
  by (induction ms arbitrary: s p) (auto simp: Let_def split: option.splits sum.splits)


subsection \<open>The chart that \<open>Plot\<close> composes\<close>

lemma Plot_compose_Ok:
  assumes "Plot_compose L metrics title = Ok p"
  shows "plot_New L = None \<and> vg_MakeFont L ''Helvetica-Bold'' (Centimeter 1) = None
     \<and> vg_MakeFont L ''Helvetica'' (Millimeter 3) = None
     \<and> (\<exists>colors p0. brewer_GetPalette L ''Dark2'' paletteSize = Inr colors
          \<and> plotters p0 = [] \<and> Legend_entries p0 = []
          \<and> add_series L colors (length metrics) 0 metrics p0 = Ok p)"
proof -
  from assms have a: "plot_New L = None" "vg_MakeFont L ''Helvetica-Bold'' (Centimeter 1) = None"
      "vg_MakeFont L ''Helvetica'' (Millimeter 3) = None"
    by (auto simp: Plot_compose_def split: option.splits)
  with assms obtain colors where b: "brewer_GetPalette L ''Dark2'' paletteSize = Inr colors"
    by (auto simp: Plot_compose_def Let_def split: sum.splits)
  from assms a b have "\<exists>p0. plotters p0 = [] \<and> Legend_entries p0 = []
          \<and> add_series L colors (length metrics) 0 metrics p0 = Ok p"
    unfolding Plot_compose_def Let_def
    by (intro exI [where x = "\<lparr>Title_Text = title,
               Title_Font = \<lparr>font_name = ''Helvetica-Bold'', font_size = Centimeter 1\<rparr>,
               Title_Padding = Centimeter 2,
               X_Tick_Marker = ''2006-01-02'' @ [newline] @ ''15:04'',
               X_Tick_Label_Font = \<lparr>font_name = ''Helvetica'', font_size = Millimeter 3\<rparr>,
               Y_Tick_Label_Font = \<lparr>font_name = ''Helvetica'', font_size = Millimeter 3\<rparr>,
               Legend_Font = \<lparr>font_name = ''Helvetica'', font_size = Millimeter 3\<rparr>,
               Legend_Top = True, Legend_YOffs = Millimeter 15,
               plotters = [], Legend_entries = []\<rparr>"]) simp
  with a b show ?thesis by blast
qed

lemma Plot_compose_shape:
  assumes "Plot_compose L metrics title = Ok p"
  shows "\<exists>colors. brewer_GetPalette L ''Dark2'' paletteSize = Inr colors
     \<and> length (plotters p) = length metrics
     \<and> (\<forall>i<length metrics.
           sample_points L (Values (metrics ! i)) = Inr (XYs (plotters p ! i))
           \<and> plotter_NewLine L (XYs (plotters p ! i)) = None
           \<and> i mod paletteSize < length colors
           \<and> LineStyle_Color (plotters p ! i) = colors ! (i mod paletteSize)
           \<and> LineStyle_Width (plotters p ! i) = Points 1)
     \<and> Legend_entries p =
           (if length metrics > 1 then
              concat (map (\<lambda>(sample, l).
                        case FindStringSubmatch labelText (Metric_String L (Metric sample)) of
                          None \<Rightarrow> [] | Some m \<Rightarrow> [(m ! 1, l)]) (zip metrics (plotters p)))
            else [])"
proof -
  from Plot_compose_Ok [OF assms] obtain colors p0 where
    c: "brewer_GetPalette L ''Dark2'' paletteSize = Inr colors" and
    p0: "plotters p0 = []" "Legend_entries p0 = []" and
    a: "add_series L colors (length metrics) 0 metrics p0 = Ok p" by blast
  from add_series_Ok [OF a] p0 c show ?thesis by auto
qed

lemma Plot_compose_total:
  assumes "plot_New L = None" "vg_MakeFont L ''Helvetica-Bold'' (Centimeter 1) = None"
    "vg_MakeFont L ''Helvetica'' (Millimeter 3) = None"
    "brewer_GetPalette L ''Dark2'' paletteSize = Inr colors" "paletteSize \<le> length colors"
    "\<forall>sample\<in>set metrics. \<exists>data. sample_points L (Values sample) = Inr data
        \<and> plotter_NewLine L data = None"
  shows "\<exists>p. Plot_compose L metrics title = Ok p"
  using assms(1-4) add_series_total [OF assms(6,5)]
  by (simp add: Plot_compose_def Let_def)

lemma Plot_compose_Metric_String:
  "length metrics \<le> 1 \<Longrightarrow>
   Plot_compose (L\<lparr>Metric_String := g\<rparr>) metrics title = Plot_compose L metrics title"
  by (auto simp: Plot_compose_def Let_def add_series_Metric_String split: option.splits sum.splits)

subsection \<open>Evaluation\<close>

text \<open>The string of every float of the example parses, to the float itself.\<close>

lemma digit_value_digit:
  "0 \<le> k \<Longrightarrow> k < 10 \<Longrightarrow> digit_value (''0123456789'' ! nat k) = Some k"
proof -
  assume "0 \<le> k" "k < 10"
  then have "k = 0 \<or> k = 1 \<or> k = 2 \<or> k = 3 \<or> k = 4 \<or> k = 5 \<or> k = 6 \<or> k = 7 \<or> k = 8 \<or> k = 9"
    by arith
  then show ?thesis by (auto simp: digit_value_def)
qed

lemma read_decimal_append:
  "read_decimal (xs @ ys) acc =
     (case read_decimal xs acc of None \<Rightarrow> None | Some a \<Rightarrow> read_decimal ys a)"
  by (induction xs arbitrary: acc) (auto split: option.splits)

lemma read_decimal_decimal: "0 \<le> n \<Longrightarrow> read_decimal (decimal n) 0 = Some n"
proof (induction n rule: decimal.induct)
  case (1 n)
  show ?case
  proof (cases "n < 10")
    case True
    with 1(2) show ?thesis by (subst decimal.simps) (simp add: digit_value_digit)
  next
    case False
    with 1 have "read_decimal (decimal (n div 10)) 0 = Some (n div 10)" by simp
    with False show ?thesis
      by (subst decimal.simps) (simp add: read_decimal_append digit_value_digit)
  qed
qed

lemma decimal_digits: "0 \<le> n \<Longrightarrow> decimal n \<noteq> [] \<and> set (decimal n) \<subseteq> set ''0123456789''"
proof (induction n rule: decimal.induct)
  case (1 n)
  have d: "''0123456789'' ! nat k \<in> set ''0123456789''" if "0 \<le> k" "k < 10" for k
    using that by (intro nth_mem) simp
  show ?case
  proof (cases "n < 10")
    case True
    with d [of n] 1(2) show ?thesis by (subst (1 2) decimal.simps) simp
  next
    case False
    with 1 d [of "n mod 10"] show ?thesis by (subst (1 2) decimal.simps) simp
  qed
qed

lemma parse_format_float: "parse_float (format_float v) = Some v"
proof (cases v)
  case (Num i)
  have nn: "decimal n \<noteq> [] \<and> decimal n \<noteq> ''NaN'' \<and> decimal n \<noteq> ''+Inf'' \<and> decimal n \<noteq> ''-Inf''
            \<and> hd (decimal n) \<noteq> CHR ''-'' \<and> decimal n \<noteq> ''Inf''" if "0 \<le> n" for n
    using decimal_digits [OF that]
    by (cases "decimal n") auto
  show ?thesis
  proof (cases "i < 0")
    case True
    with Num nn [of "- i"] show ?thesis
      by (simp add: parse_float_def format_float_def read_decimal_decimal)
  next
    case False
    then have i: "0 \<le> i" by simp
    from nn [OF i] obtain c cs where c: "decimal i = c # cs" "c \<noteq> CHR ''-''"
      by (cases "decimal i") auto
    from read_decimal_decimal [OF i] have "read_decimal (c # cs) 0 = Some i" by (simp only: c)
    with Num False nn [OF i] c show ?thesis
      by (simp add: parse_float_def format_float_def del: read_decimal.simps)
  qed
qed (simp_all add: parse_float_def format_float_def)

lemmas example_defs = example_Libs_def series_a1_def series_a2_def series_nan_def
  nine_series_def paletteSize_def labelText_def matches.simps newline_def
  Plot_compose_def Plot_def Let_def parse_format_float int_to_float_def nearest_double_def
  quote_def

lemmas main_defs = main_def write_file_def copy_plot_def upload_slack_def fatal_def log_def
  runtime_panic_def flag_Usage_def Let_def

section \<open>The claims\<close>

text \<open>
  Claim C1.  Whenever \<open>Plot\<close> gets to the end of its loop, the chart holds
  exactly one line per entry of the Matrix, in the order of the Matrix, and
  the points of the line of a series are, sample by sample, X the float
  conversion of the Unix timestamp and Y the value that \<open>ParseFloat\<close> returns
  for the sample's string; every sample of a composed chart did parse.  The
  loop does get to its end when the plot, the fonts and a palette of eight
  colours are created, every value parses and \<open>NewLine\<close> accepts the points
  of every series.
\<close>

theorem Plot_one_line_per_series:
  "(\<forall>p. Plot_compose L metrics title = Ok p \<longrightarrow>
      length (plotters p) = length metrics
      \<and> (\<forall>s<length metrics.
            XYs (plotters p ! s)
            = map (\<lambda>v. (float64 L (Time_Unix L (Timestamp v)),
                         the (strconv_ParseFloat L (SampleValue_String L (Value v)))))
                (Values (metrics ! s))
            \<and> (\<forall>v\<in>set (Values (metrics ! s)).
                  strconv_ParseFloat L (SampleValue_String L (Value v)) \<noteq> None)))
   \<and> (plot_New L = None \<and> vg_MakeFont L ''Helvetica-Bold'' (Centimeter 1) = None
      \<and> vg_MakeFont L ''Helvetica'' (Millimeter 3) = None
      \<and> (\<exists>colors. brewer_GetPalette L ''Dark2'' 8 = Inr colors \<and> length colors = 8)
      \<and> (\<forall>sample\<in>set metrics.
            (\<forall>v\<in>set (Values sample).
               strconv_ParseFloat L (SampleValue_String L (Value v)) \<noteq> None)
            \<and> plotter_NewLine L
                 (map (\<lambda>v. (float64 L (Time_Unix L (Timestamp v)),
                            the (strconv_ParseFloat L (SampleValue_String L (Value v)))))
                    (Values sample)) = None)
      \<longrightarrow> (\<exists>p. Plot_compose L metrics title = Ok p))"
proof -
  have shape: "length (plotters p) = length metrics
      \<and> (\<forall>s<length metrics.
            XYs (plotters p ! s)
            = map (\<lambda>v. (float64 L (Time_Unix L (Timestamp v)),
                         the (strconv_ParseFloat L (SampleValue_String L (Value v)))))
                (Values (metrics ! s))
            \<and> (\<forall>v\<in>set (Values (metrics ! s)).
                  strconv_ParseFloat L (SampleValue_String L (Value v)) \<noteq> None))"
    if ok: "Plot_compose L metrics title = Ok p" for p
  proof -
    from Plot_compose_shape [OF ok] have
      n: "length (plotters p) = length metrics" and
      e: "\<forall>i<length metrics.
            sample_points L (Values (metrics ! i)) = Inr (XYs (plotters p ! i))"
      by blast+
    from e sample_points_Inr show ?thesis unfolding n by blast
  qed
  have total: "\<exists>p. Plot_compose L metrics title = Ok p"
    if a: "plot_New L = None \<and> vg_MakeFont L ''Helvetica-Bold'' (Centimeter 1) = None
      \<and> vg_MakeFont L ''Helvetica'' (Millimeter 3) = None
      \<and> (\<exists>colors. brewer_GetPalette L ''Dark2'' 8 = Inr colors \<and> length colors = 8)
      \<and> (\<forall>sample\<in>set metrics.
            (\<forall>v\<in>set (Values sample).
               strconv_ParseFloat L (SampleValue_String L (Value v)) \<noteq> None)
            \<and> plotter_NewLine L
                 (map (\<lambda>v. (float64 L (Time_Unix L (Timestamp v)),
                            the (strconv_ParseFloat L (SampleValue_String L (Value v)))))
                    (Values sample)) = None)"
  proof -
    from a obtain colors where c: "brewer_GetPalette L ''Dark2'' paletteSize = Inr colors"
      "paletteSize \<le> length colors"
      by (auto simp: paletteSize_def)
    have "\<forall>sample\<in>set metrics. \<exists>data. sample_points L (Values sample) = Inr data
        \<and> plotter_NewLine L data = None"
    proof
      fix sample assume m: "sample \<in> set metrics"
      with a have "\<forall>v\<in>set (Values sample).
               strconv_ParseFloat L (SampleValue_String L (Value v)) \<noteq> None" by blast
      from sample_points_total [OF this] obtain data where
        d: "sample_points L (Values sample) = Inr data" by blast
      from sample_points_Inr [OF d] a m have "plotter_NewLine L data = None" by simp
      with d show "\<exists>data. sample_points L (Values sample) = Inr data
        \<and> plotter_NewLine L data = None" by blast
    qed
    with a c show ?thesis
      by (intro Plot_compose_total) auto
  qed
  from shape total show ?thesis by blast
qed

theorem Plot_one_line_per_series_witness:
  "\<exists>p. Plot_compose example_Libs [series_a1, series_a2] ''Test'' = Ok p
     \<and> length (plotters p) = 2
     \<and> XYs (plotters p ! 0) = [(Num 0, Num 1), (Num 60, Num 2)]
     \<and> XYs (plotters p ! 1) = [(Num 0, Num 0), (Num 60, Num 1)]"
proof -
  note T = Plot_one_line_per_series [of example_Libs "[series_a1, series_a2]" "''Test''"]
  have "plot_New example_Libs = None
      \<and> vg_MakeFont example_Libs ''Helvetica-Bold'' (Centimeter 1) = None
      \<and> vg_MakeFont example_Libs ''Helvetica'' (Millimeter 3) = None
      \<and> (\<exists>colors. brewer_GetPalette example_Libs ''Dark2'' 8 = Inr colors \<and> length colors = 8)
      \<and> (\<forall>sample\<in>set [series_a1, series_a2].
            (\<forall>v\<in>set (Values sample).
               strconv_ParseFloat example_Libs (SampleValue_String example_Libs (Value v)) \<noteq> None)
            \<and> plotter_NewLine example_Libs
                 (map (\<lambda>v. (float64 example_Libs (Time_Unix example_Libs (Timestamp v)),
                            the (strconv_ParseFloat example_Libs
                                   (SampleValue_String example_Libs (Value v)))))
                    (Values sample)) = None)"
    by (simp add: example_Libs_def series_a1_def series_a2_def parse_format_float
          int_to_float_def nearest_double_def)
  with T obtain p where p: "Plot_compose example_Libs [series_a1, series_a2] ''Test'' = Ok p"
    by blast
  with T have "length (plotters p) = length [series_a1, series_a2]
      \<and> (\<forall>s<length [series_a1, series_a2].
            XYs (plotters p ! s)
            = map (\<lambda>v. (float64 example_Libs (Time_Unix example_Libs (Timestamp v)),
                         the (strconv_ParseFloat example_Libs
                                (SampleValue_String example_Libs (Value v)))))
                (Values ([series_a1, series_a2] ! s)))"
    by blast
  then have "length (plotters p) = 2"
    and "XYs (plotters p ! 0)
            = map (\<lambda>v. (float64 example_Libs (Time_Unix example_Libs (Timestamp v)),
                         the (strconv_ParseFloat example_Libs
                                (SampleValue_String example_Libs (Value v)))))
                (Values ([series_a1, series_a2] ! 0))"
    and "XYs (plotters p ! 1)
            = map (\<lambda>v. (float64 example_Libs (Time_Unix example_Libs (Timestamp v)),
                         the (strconv_ParseFloat example_Libs
                                (SampleValue_String example_Libs (Value v)))))
                (Values ([series_a1, series_a2] ! 1))"
    by simp_all
  then have "length (plotters p) = 2 \<and> XYs (plotters p ! 0) = [(Num 0, Num 1), (Num 60, Num 2)]
     \<and> XYs (plotters p ! 1) = [(Num 0, Num 0), (Num 60, Num 1)]"
    by (simp add: example_Libs_def series_a1_def series_a2_def parse_format_float
          int_to_float_def nearest_double_def)
  with p show ?thesis by blast
qed


text \<open>
  Claim C2, amended.  The star of \<open>labelText\<close> is greedy: the group is the
  text from the first opening brace to the last closing brace after it, when no
  line feed lies between the two.  The metric of the specification's example
  yields its label set.  A string without an opening brace, or without a
  closing brace, has no match.  In a composed chart of more than one series the
  legend holds, in the order of the series, one entry per series whose metric
  string matches, named by the group and bound to the line of that series; a
  series without a match has a line and no entry.
\<close>

theorem labelText_extracts_to_last_close:
  "(CHR ''{'' \<notin> set pre \<and> newline \<notin> set g \<and> CHR ''}'' \<notin> set post \<longrightarrow>
      FindStringSubmatch labelText (pre @ CHR ''{'' # g @ CHR ''}'' # post)
      = Some [CHR ''{'' # g @ ''}'', g])
   \<and> FindStringSubmatch labelText ''metric_name{job=\"x\",instance=\"y\"}''
      = Some [''{job=\"x\",instance=\"y\"}'', ''job=\"x\",instance=\"y\"'']
   \<and> (CHR ''{'' \<notin> set s \<or> CHR ''}'' \<notin> set s \<longrightarrow> FindStringSubmatch labelText s = None)
   \<and> (\<forall>p. Plot_compose L metrics title = Ok p \<longrightarrow>
         Legend_entries p =
           (if length metrics > 1 then
              concat (map (\<lambda>(sample, l).
                        case FindStringSubmatch labelText (Metric_String L (Metric sample)) of
                          None \<Rightarrow> [] | Some m \<Rightarrow> [(m ! 1, l)]) (zip metrics (plotters p)))
            else []))"
proof -
  have "FindStringSubmatch labelText ''metric_name{job=\"x\",instance=\"y\"}''
      = Some [''{job=\"x\",instance=\"y\"}'', ''job=\"x\",instance=\"y\"'']"
    by (simp add: labelText_def matches.simps newline_def)
  moreover have "\<forall>p. Plot_compose L metrics title = Ok p \<longrightarrow>
         Legend_entries p =
           (if length metrics > 1 then
              concat (map (\<lambda>(sample, l).
                        case FindStringSubmatch labelText (Metric_String L (Metric sample)) of
                          None \<Rightarrow> [] | Some m \<Rightarrow> [(m ! 1, l)]) (zip metrics (plotters p)))
            else [])"
    using Plot_compose_shape by blast
  ultimately show ?thesis
    using Find_greedy Find_no_open Find_no_close by blast
qed

theorem labelText_extracts_to_last_close_witness:
  "FindStringSubmatch labelText (''up'' @ CHR ''{'' # ''a={b}c'' @ CHR ''}'' # ''!'')
     = Some [CHR ''{'' # ''a={b}c'' @ ''}'', ''a={b}c'']
   \<and> FindStringSubmatch labelText ''up'' = None
   \<and> (\<exists>p. Plot_compose example_Libs [series_a1, series_a2] ''Test'' = Ok p
         \<and> map fst (Legend_entries p) = [''a=\"1\"'', ''a=\"2\"''])"
proof -
  note T = labelText_extracts_to_last_close
    [of "''up''" "''a={b}c''" "''!''" "''up''" example_Libs "[series_a1, series_a2]" "''Test''"]
  have h1: "CHR ''{'' \<notin> set ''up'' \<and> newline \<notin> set ''a={b}c'' \<and> CHR ''}'' \<notin> set ''!''"
    by (simp add: newline_def)
  have h2: "CHR ''{'' \<notin> set ''up'' \<or> CHR ''}'' \<notin> set ''up''" by simp
  obtain p where p: "Plot_compose example_Libs [series_a1, series_a2] ''Test'' = Ok p"
    by (simp add: example_defs)
  with T have "Legend_entries p =
           (if length [series_a1, series_a2] > 1 then
              concat (map (\<lambda>(sample, l).
                        case FindStringSubmatch labelText (Metric_String example_Libs (Metric sample)) of
                          None \<Rightarrow> [] | Some m \<Rightarrow> [(m ! 1, l)]) (zip [series_a1, series_a2] (plotters p)))
            else [])" by blast
  moreover from p have "length (plotters p) = 2" by (auto simp add: example_defs)
  then obtain l1 l2 where "plotters p = [l1, l2]"
    by (cases "plotters p"; cases "tl (plotters p)") auto
  ultimately have "map fst (Legend_entries p) = [''a=\"1\"'', ''a=\"2\"'']"
    by (simp add: example_defs)
  with p have c: "\<exists>p. Plot_compose example_Libs [series_a1, series_a2] ''Test'' = Ok p
         \<and> map fst (Legend_entries p) = [''a=\"1\"'', ''a=\"2\"'']" by (intro exI [of _ p] conjI) assumption+
  note a = T [THEN conjunct1, THEN mp, OF h1]
  note b = T [THEN conjunct2, THEN conjunct2, THEN conjunct1, THEN mp, OF h2]
  from a b c show ?thesis by (intro conjI) assumption+
qed

text \<open>
  C2 as written fails on nested braces: the specification ends the capture at
  the first closing brace, the pattern at the last one.
\<close>

theorem labelText_first_close_counterexample:
  "FindStringSubmatch labelText ''m{a={b}c}'' = Some [''{a={b}c}'', ''a={b}c'']
   \<and> spec_first_brace_pair ''m{a={b}c}'' = Some ''a={b''
   \<and> ''a={b}c'' \<noteq> ''a={b''"
  by (simp add: labelText_def matches.simps newline_def)

text \<open>
  Claim C3.  In a composed chart the line of the series at position \<open>i\<close>
  has the colour \<open>colors[i mod 8]\<close> of the palette \<open>Dark2\<close> of size 8,
  so the series at positions \<open>i\<close> and \<open>i + 8\<close> have the same colour.
\<close>

theorem color_is_palette_mod_8:
  assumes "Plot_compose L metrics title = Ok p"
  shows "\<exists>colors. brewer_GetPalette L ''Dark2'' 8 = Inr colors
     \<and> (\<forall>i<length metrics.
           i mod 8 < length colors
           \<and> LineStyle_Color (plotters p ! i) = colors ! (i mod 8))
     \<and> (\<forall>i. i + 8 < length metrics \<longrightarrow>
           LineStyle_Color (plotters p ! (i + 8)) = LineStyle_Color (plotters p ! i))"
proof -
  from Plot_compose_shape [OF assms] obtain colors where
    c: "brewer_GetPalette L ''Dark2'' 8 = Inr colors" and
    e: "\<forall>i<length metrics. i mod 8 < length colors
           \<and> LineStyle_Color (plotters p ! i) = colors ! (i mod 8)"
    unfolding paletteSize_def by blast
  have "LineStyle_Color (plotters p ! (i + 8)) = LineStyle_Color (plotters p ! i)"
    if "i + 8 < length metrics" for i
  proof -
    from that have "i < length metrics" by simp
    with e that have "LineStyle_Color (plotters p ! (i + 8)) = colors ! ((i + 8) mod 8)"
      "LineStyle_Color (plotters p ! i) = colors ! (i mod 8)" by blast+
    then show ?thesis by simp
  qed
  with c e show ?thesis by blast
qed

theorem color_is_palette_mod_8_witness:
  "\<exists>p. Plot_compose example_Libs nine_series ''Test'' = Ok p
     \<and> brewer_GetPalette example_Libs ''Dark2'' 8 = Inr [0, 1, 2, 3, 4, 5, 6, 7]
     \<and> LineStyle_Color (plotters p ! 3) = 3
     \<and> LineStyle_Color (plotters p ! 8) = LineStyle_Color (plotters p ! 0)"
proof -
  obtain p where p: "Plot_compose example_Libs nine_series ''Test'' = Ok p"
    by (simp add: example_defs)
  from color_is_palette_mod_8 [OF p] obtain colors where
    c: "brewer_GetPalette example_Libs ''Dark2'' 8 = Inr colors" and
    e: "\<forall>i<length nine_series. i mod 8 < length colors
           \<and> LineStyle_Color (plotters p ! i) = colors ! (i mod 8)" and
    f: "\<forall>i. i + 8 < length nine_series \<longrightarrow>
           LineStyle_Color (plotters p ! (i + 8)) = LineStyle_Color (plotters p ! i)"
    by blast
  from c have cs: "colors = [0, 1, 2, 3, 4, 5, 6, 7]" by (simp add: example_Libs_def)
  from e have "LineStyle_Color (plotters p ! 3) = colors ! (3 mod 8)"
    by (simp add: nine_series_def)
  with cs have a: "LineStyle_Color (plotters p ! 3) = 3" by simp
  from f have "0 + 8 < length nine_series \<longrightarrow>
           LineStyle_Color (plotters p ! (0 + 8)) = LineStyle_Color (plotters p ! 0)" by (rule spec)
  then have b: "LineStyle_Color (plotters p ! 8) = LineStyle_Color (plotters p ! 0)"
    by (simp add: nine_series_def)
  from c cs have "brewer_GetPalette example_Libs ''Dark2'' 8 = Inr [0, 1, 2, 3, 4, 5, 6, 7]" by simp
  with p a b show ?thesis by (intro exI [of _ p] conjI) assumption+
qed

text \<open>
  Claim C4.  A composed chart has legend entries only if the Matrix has more
  than one series.  For a Matrix of one series the legend is empty whatever
  the metric, and the result of the composition does not depend on
  \<open>Metric.String\<close>: the label is not looked at.
\<close>

theorem legend_only_for_several_series:
  "(\<forall>p. Plot_compose L metrics title = Ok p \<and> Legend_entries p \<noteq> [] \<longrightarrow> 1 < length metrics)
   \<and> (length metrics = 1 \<longrightarrow>
        (\<forall>p. Plot_compose L metrics title = Ok p \<longrightarrow> Legend_entries p = [])
        \<and> (\<forall>g. Plot_compose (L\<lparr>Metric_String := g\<rparr>) metrics title
                = Plot_compose L metrics title))"
proof -
  have "Legend_entries p = []" if "Plot_compose L metrics title = Ok p" "\<not> 1 < length metrics" for p
    using Plot_compose_shape [OF that(1)] that(2) by auto
  moreover have "Plot_compose (L\<lparr>Metric_String := g\<rparr>) metrics title = Plot_compose L metrics title"
    if "length metrics = 1" for g
    using that by (simp add: Plot_compose_Metric_String)
  ultimately show ?thesis by (metis less_irrefl)
qed

theorem legend_only_for_several_series_witness:
  "length [series_a1] = 1
   \<and> FindStringSubmatch labelText (Metric_String example_Libs (Metric series_a1))
       = Some [''{a=\"1\"}'', ''a=\"1\"'']
   \<and> (\<exists>p. Plot_compose example_Libs [series_a1] ''Test'' = Ok p \<and> Legend_entries p = [])
   \<and> Plot_compose (example_Libs\<lparr>Metric_String := (\<lambda>m. ''{x}'')\<rparr>) [series_a1] ''Test''
       = Plot_compose example_Libs [series_a1] ''Test''"
proof -
  note T = legend_only_for_several_series [of example_Libs "[series_a1]" "''Test''"]
  have n: "length [series_a1] = 1" by simp
  obtain p where p: "Plot_compose example_Libs [series_a1] ''Test'' = Ok p"
    by (simp add: example_defs)
  from T n p have "Legend_entries p = []" by blast
  with p have a: "\<exists>p. Plot_compose example_Libs [series_a1] ''Test'' = Ok p \<and> Legend_entries p = []"
    by (intro exI [of _ p] conjI) assumption+
  from T n have b: "Plot_compose (example_Libs\<lparr>Metric_String := (\<lambda>m. ''{x}'')\<rparr>) [series_a1] ''Test''
       = Plot_compose example_Libs [series_a1] ''Test''" by blast
  have c: "FindStringSubmatch labelText (Metric_String example_Libs (Metric series_a1))
       = Some [''{a=\"1\"}'', ''a=\"1\"'']"
    by (simp add: example_defs)
  from n c a b show ?thesis by (intro conjI) assumption+
qed

text \<open>
  Claim C7, amended.  If \<open>draw.NewFormattedCanvas\<close> rejects the format,
  \<open>Plot\<close> returns no bytes; when the chart has been composed, it returns
  \<open>nil\<close> with the error \<open>failed creating image canvas\<close> followed by the
  error of the canvas.
\<close>

theorem unsupported_format_fails:
  assumes "draw_NewFormattedCanvas L (Centimeter 24) (Centimeter 20) format = Inl e"
  shows "(\<forall>b. Plot L metrics title format \<noteq> Ok b)
     \<and> ((\<exists>p. Plot_compose L metrics title = Ok p) \<longrightarrow>
          Plot L metrics title format = Err (''failed creating image canvas: '' @ e))"
  using assms by (auto simp: Plot_def split: result.splits)

theorem unsupported_format_fails_witness:
  "draw_NewFormattedCanvas example_Libs (Centimeter 24) (Centimeter 20) ''bogus''
     = Inl ''unsupported format: \"bogus\"''
   \<and> (\<exists>p. Plot_compose example_Libs [series_a1, series_a2] ''Test'' = Ok p)
   \<and> Plot example_Libs [series_a1, series_a2] ''Test'' ''bogus'' \<noteq> Ok ''Test''
   \<and> Plot example_Libs [series_a1, series_a2] ''Test'' ''bogus''
       = Err ''failed creating image canvas: unsupported format: \"bogus\"''"
proof -
  have h: "draw_NewFormattedCanvas example_Libs (Centimeter 24) (Centimeter 20) ''bogus''
     = Inl ''unsupported format: \"bogus\"''"
    by (simp add: example_Libs_def quote_def)
  have c: "\<exists>p. Plot_compose example_Libs [series_a1, series_a2] ''Test'' = Ok p"
    by (simp add: example_defs)
  note T = unsupported_format_fails [OF h, of "[series_a1, series_a2]" "''Test''"]
  from T c have "Plot example_Libs [series_a1, series_a2] ''Test'' ''bogus''
       = Err (''failed creating image canvas: '' @ ''unsupported format: \"bogus\"'')" by blast
  moreover from T have "Plot example_Libs [series_a1, series_a2] ''Test'' ''bogus'' \<noteq> Ok ''Test''"
    by blast
  ultimately show ?thesis using h c by simp
qed

text \<open>
  C7 as written fails when the composition fails: the format is looked at only
  after the loop, so the error of the composition is the one returned.
\<close>

theorem unsupported_format_counterexample:
  "draw_NewFormattedCanvas example_Libs (Centimeter 24) (Centimeter 20) ''bogus''
     = Inl ''unsupported format: \"bogus\"''
   \<and> Plot example_Libs [series_nan] ''Test'' ''bogus''
       = Err ''failed creating line: NaN data point''"
  by (simp add: example_defs)

text \<open>
  Claim C8, amended.  With \<open>-version\<close> the process prints the version to
  standard output and exits with status 0, whatever the other flags.  Without
  it, when the URL or the query is empty, the range is zero, or the file is
  empty and the Slack token or the channel is empty, the process prints the
  usage text to the error stream and exits with status 1.
\<close>

theorem missing_flags_usage_exit:
  "(flag_version F \<longrightarrow>
      exit_status (main L E F) = Some 0 \<and> stderr (main L E F) = []
      \<and> stdout (main L E F)
          = ''promplot '' @ version E @ '' '' @ runtime_GOOS E @ '' '' @ runtime_GOARCH E @ [newline])
   \<and> (\<not> flag_version F
       \<and> (flag_url F = [] \<or> flag_query F = [] \<or> flag_range F = 0
           \<or> (flag_file F = [] \<and> (flag_slack F = [] \<or> flag_channel F = []))) \<longrightarrow>
      exit_status (main L E F) = Some 1
      \<and> stderr (main L E F) = usage (os_Args0 E) @ flag_PrintDefaults E @ more_text @ [newline]
      \<and> stdout (main L E F) = [])"
  by (simp add: main_def flag_Usage_def)

theorem missing_flags_usage_exit_witness:
  "flag_version (example_Flags\<lparr>flag_version := True, flag_url := []\<rparr>)
   \<and> exit_status (main example_Libs example_OS (example_Flags\<lparr>flag_version := True, flag_url := []\<rparr>))
       = Some 0
   \<and> \<not> flag_version (example_Flags\<lparr>flag_range := 0, flag_silent := True\<rparr>)
   \<and> flag_range (example_Flags\<lparr>flag_range := 0, flag_silent := True\<rparr>) = 0
   \<and> exit_status (main example_Libs example_OS (example_Flags\<lparr>flag_range := 0, flag_silent := True\<rparr>))
       = Some 1
   \<and> stderr (main example_Libs example_OS (example_Flags\<lparr>flag_range := 0, flag_silent := True\<rparr>))
       = usage ''promplot'' @ ''  -url string'' @ more_text @ [newline]"
  using missing_flags_usage_exit
          [of "example_Flags\<lparr>flag_version := True, flag_url := []\<rparr>" example_Libs example_OS]
        missing_flags_usage_exit
          [of "example_Flags\<lparr>flag_range := 0, flag_silent := True\<rparr>" example_Libs example_OS]
  by (simp add: example_Flags_def example_OS_def)

text \<open>
  C8 as written fails with \<open>-version\<close>: the URL is missing, the exit status
  is 0 and nothing is printed to the error stream.
\<close>

theorem usage_exit_counterexample:
  "flag_url (example_Flags\<lparr>flag_version := True, flag_url := []\<rparr>) = []
   \<and> exit_status (main example_Libs example_OS (example_Flags\<lparr>flag_version := True, flag_url := []\<rparr>))
       = Some 0
   \<and> stderr (main example_Libs example_OS (example_Flags\<lparr>flag_version := True, flag_url := []\<rparr>))
       = []"
  by (simp add: main_def example_Flags_def)

text \<open>
  Claim C9.  In a run past the flag checks, the first error that a collaborator
  returns (the query, \<open>Plot\<close>, the creation of the file, the copy, the
  upload) ends the process with status 1, and the error stream ends with the
  line \<open>msg:\<close> and the text of the error.  With \<open>-silent\<close> that line is all
  the error stream holds: only the progress messages are suppressed.
\<close>

theorem every_error_is_fatal:
  assumes run: "\<not> flag_version F" "flag_url F \<noteq> []" "flag_query F \<noteq> []" "flag_range F \<noteq> 0"
      "flag_file F \<noteq> [] \<or> (flag_slack F \<noteq> [] \<and> flag_channel F \<noteq> [])"
    and err:
      "promplot_Metrics E (flag_url F) (flag_query F) (flag_time F) (flag_range F) step = Inl e
       \<or> (\<exists>metrics.
            promplot_Metrics E (flag_url F) (flag_query F) (flag_time F) (flag_range F) step
              = Inr metrics
            \<and> (Plot L metrics (flag_title F) (flag_format F) = Err e
               \<or> (\<exists>plot. Plot L metrics (flag_title F) (flag_format F) = Ok plot
                    \<and> (flag_file F \<noteq> [] \<and> flag_file F \<noteq> ''-''
                          \<and> os_Create E (flag_file F) = Some e
                       \<or> flag_file F \<noteq> []
                          \<and> (flag_file F = ''-'' \<or> os_Create E (flag_file F) = None)
                          \<and> snd (io_Copy E (flag_file F) plot) = Some e
                       \<or> (flag_file F = []
                            \<or> (flag_file F = ''-'' \<or> os_Create E (flag_file F) = None)
                               \<and> snd (io_Copy E (flag_file F) plot) = None)
                          \<and> flag_slack F \<noteq> []
                          \<and> promplot_Slack E (flag_slack F) (flag_channel F) (flag_title F) plot
                              = Some e))))"
  shows "exit_status (main L E F) = Some 1
     \<and> (\<exists>logs. stderr (main L E F) = logs @ ''msg: '' @ e @ [newline]
           \<and> (flag_silent F \<longrightarrow> logs = []))"
proof -
  define lq where "lq = ''Querying Prometheus '' @ fmt_q E (flag_query F) @ [newline]"
  define lc where "lc = ''Creating plot '' @ fmt_q E (flag_title F) @ [newline]"
  define lw where "lw = (if flag_file F = ''-'' then ''Writing to stdout''
                         else ''Writing to '' @ [CHR 0x27] @ flag_file F @ [CHR 0x27]) @ [newline]"
  define lu where "lu = ''Uploading to Slack channel '' @ fmt_q E (flag_channel F) @ [newline]"
  note defs = main_defs lq_def lc_def lw_def lu_def
  have fin: ?thesis
    if "exit_status (main L E F) = Some 1"
       "stderr (main L E F) = (if flag_silent F then [] else logs) @ ''msg: '' @ e @ [newline]"
    for logs
    using that by (intro conjI exI [of _ "if flag_silent F then [] else logs"]) simp_all
  from err consider
    (metrics) "promplot_Metrics E (flag_url F) (flag_query F) (flag_time F) (flag_range F) step = Inl e"
  | (plot) metrics where
      "promplot_Metrics E (flag_url F) (flag_query F) (flag_time F) (flag_range F) step = Inr metrics"
      "Plot L metrics (flag_title F) (flag_format F) = Err e"
  | (create) metrics plot where
      "promplot_Metrics E (flag_url F) (flag_query F) (flag_time F) (flag_range F) step = Inr metrics"
      "Plot L metrics (flag_title F) (flag_format F) = Ok plot"
      "flag_file F \<noteq> []" "flag_file F \<noteq> ''-''" "os_Create E (flag_file F) = Some e"
  | (copy) metrics plot where
      "promplot_Metrics E (flag_url F) (flag_query F) (flag_time F) (flag_range F) step = Inr metrics"
      "Plot L metrics (flag_title F) (flag_format F) = Ok plot"
      "flag_file F \<noteq> []" "flag_file F = ''-'' \<or> os_Create E (flag_file F) = None"
      "snd (io_Copy E (flag_file F) plot) = Some e"
  | (slack_only) metrics plot where
      "promplot_Metrics E (flag_url F) (flag_query F) (flag_time F) (flag_range F) step = Inr metrics"
      "Plot L metrics (flag_title F) (flag_format F) = Ok plot"
      "flag_file F = []" "flag_slack F \<noteq> []"
      "promplot_Slack E (flag_slack F) (flag_channel F) (flag_title F) plot = Some e"
  | (slack) metrics plot where
      "promplot_Metrics E (flag_url F) (flag_query F) (flag_time F) (flag_range F) step = Inr metrics"
      "Plot L metrics (flag_title F) (flag_format F) = Ok plot"
      "flag_file F \<noteq> []" "flag_file F = ''-'' \<or> os_Create E (flag_file F) = None"
      "snd (io_Copy E (flag_file F) plot) = None" "flag_slack F \<noteq> []"
      "promplot_Slack E (flag_slack F) (flag_channel F) (flag_title F) plot = Some e"
    by blast
  then show ?thesis
  proof cases
    case metrics
    with run have "exit_status (main L E F) = Some 1
      \<and> stderr (main L E F) = (if flag_silent F then [] else lq) @ ''msg: '' @ e @ [newline]"
      by (auto simp: defs)
    then show ?thesis using fin by blast
  next
    case plot
    with run have "exit_status (main L E F) = Some 1
      \<and> stderr (main L E F) = (if flag_silent F then [] else lq @ lc) @ ''msg: '' @ e @ [newline]"
      by (auto simp: defs)
    then show ?thesis using fin by blast
  next
    case create
    with run have "exit_status (main L E F) = Some 1
      \<and> stderr (main L E F) = (if flag_silent F then [] else lq @ lc @ lw) @ ''msg: '' @ e @ [newline]"
      by (auto simp: defs)
    then show ?thesis using fin by blast
  next
    case copy
    from copy(5) obtain w where w: "io_Copy E (flag_file F) plot = (w, Some e)"
      by (cases "io_Copy E (flag_file F) plot") simp
    have "exit_status (main L E F) = Some 1
      \<and> stderr (main L E F) = (if flag_silent F then [] else lq @ lc @ lw) @ ''msg: '' @ e @ [newline]"
    proof (cases "flag_file F = ''-''")
      case True
      with run copy(1,2,3) w show ?thesis by (auto simp: defs)
    next
      case False
      with copy(4) have "os_Create E (flag_file F) = None" by simp
      with False run copy(1,2,3) w show ?thesis by (auto simp: defs)
    qed
    then show ?thesis using fin by blast
  next
    case slack_only
    with run have "exit_status (main L E F) = Some 1
      \<and> stderr (main L E F) = (if flag_silent F then [] else lq @ lc @ lu) @ ''msg: '' @ e @ [newline]"
      by (auto simp: defs)
    then show ?thesis using fin by blast
  next
    case slack
    from slack(5) obtain w where w: "io_Copy E (flag_file F) plot = (w, None)"
      by (cases "io_Copy E (flag_file F) plot") simp
    have "exit_status (main L E F) = Some 1
      \<and> stderr (main L E F) = (if flag_silent F then [] else lq @ lc @ lw @ lu) @ ''msg: '' @ e @ [newline]"
    proof (cases "flag_file F = ''-''")
      case True
      with run slack(1,2,3,6,7) w show ?thesis by (auto simp: defs)
    next
      case False
      with slack(4) have "os_Create E (flag_file F) = None" by simp
      with False run slack(1,2,3,6,7) w show ?thesis by (auto simp: defs)
    qed
    then show ?thesis using fin by blast
  qed
qed

theorem every_error_is_fatal_witness:
  "exit_status (main example_Libs example_OS (example_Flags\<lparr>flag_url := ''http://down''\<rparr>)) = Some 1
   \<and> stderr (main example_Libs example_OS (example_Flags\<lparr>flag_url := ''http://down''\<rparr>))
       = ''msg: connection refused'' @ [newline]
   \<and> exit_status (main example_Libs example_OS
         (example_Flags\<lparr>flag_silent := False, flag_file := ''/full/out.png''\<rparr>)) = Some 1"
proof -
  let ?F = "example_Flags\<lparr>flag_url := ''http://down''\<rparr>"
  let ?G = "example_Flags\<lparr>flag_silent := False, flag_file := ''/full/out.png''\<rparr>"
  have f: "exit_status (main example_Libs example_OS ?F) = Some 1
     \<and> (\<exists>logs. stderr (main example_Libs example_OS ?F)
                  = logs @ ''msg: '' @ ''connection refused'' @ [newline]
           \<and> (flag_silent ?F \<longrightarrow> logs = []))"
    by (rule every_error_is_fatal) (simp_all add: example_Flags_def example_OS_def)
  have g: "exit_status (main example_Libs example_OS ?G) = Some 1
     \<and> (\<exists>logs. stderr (main example_Libs example_OS ?G)
                  = logs @ ''msg: '' @ ''no space left on device'' @ [newline]
           \<and> (flag_silent ?G \<longrightarrow> logs = []))"
    by (rule every_error_is_fatal)
       (simp_all add: example_Flags_def example_OS_def step_def example_defs)
  from f have "stderr (main example_Libs example_OS ?F) = ''msg: connection refused'' @ [newline]"
    by (auto simp: example_Flags_def)
  with f g show ?thesis by simp
qed

text \<open>
  Claim C10.  \<open>fatal\<close> with an error appends \<open>msg:\<close>, a space, the text of
  the error and a line feed to the error stream and sets the exit status to 1;
  without an error it does nothing.  Its second argument has no effect on the
  result.
\<close>

theorem fatal_discards_context:
  "fatal (Some e) msg p = p\<lparr>stderr := stderr p @ ''msg: '' @ e @ [newline], exit_status := Some 1\<rparr>
   \<and> exit_status (fatal (Some e) msg p) = Some 1
   \<and> fatal None msg p = p
   \<and> fatal err msg p = fatal err msg' p"
  by (simp add: fatal_def)

theorem fatal_discards_context_witness:
  "stderr (fatal (Some ''connection refused'') ''failed getting metrics''
             \<lparr>stdout = [], stderr = [], files = [], exit_status = None\<rparr>)
     = ''msg: connection refused'' @ [newline]
   \<and> exit_status (fatal (Some ''connection refused'') ''failed getting metrics''
                    \<lparr>stdout = [], stderr = [], files = [], exit_status = None\<rparr>) = Some 1"
  using fatal_discards_context
          [of "''connection refused''" "''failed getting metrics''"
              "\<lparr>stdout = [], stderr = [], files = [], exit_status = None\<rparr>"]
  by simp

end
